theory Spec2Isabelle
  imports Complex_Main "HOL-Library.AList"
begin

section \<open>Calendar dates\<close>

text \<open>
  The module works on \<^verbatim>\<open>datetime.date\<close> values obtained through \<^verbatim>\<open>frappe.utils.getdate\<close>.
  A date is its three fields; Python compares dates as the tuples (year, month, day), and
  the difference of two dates in days is the difference of their proleptic Gregorian
  ordinals (\<^verbatim>\<open>date.toordinal\<close>).
\<close>

datatype date = Date (year: int) (month: int) (day: int)

definition is_leap :: "int \<Rightarrow> bool" where
  "is_leap y = (y mod 4 = 0 \<and> (y mod 400 = 0 \<or> y mod 100 \<noteq> 0))"

definition days_in_month :: "int \<Rightarrow> int \<Rightarrow> int" where
  "days_in_month y m =
     (if m = 2 then (if is_leap y then 29 else 28)
      else if m = 4 \<or> m = 6 \<or> m = 9 \<or> m = 11 then 30
      else 31)"

definition days_before_year :: "int \<Rightarrow> int" where
  "days_before_year y = (y - 1) * 365 + (y - 1) div 4 - (y - 1) div 100 + (y - 1) div 400"

definition days_before_month :: "int \<Rightarrow> int \<Rightarrow> int" where
  "days_before_month y m =
     (if m \<le> 1 then 0
      else if m = 2 then 31
      else (if m = 3 then 59 else if m = 4 then 90 else if m = 5 then 120
            else if m = 6 then 151 else if m = 7 then 181 else if m = 8 then 212
            else if m = 9 then 243 else if m = 10 then 273 else if m = 11 then 304
            else 334)
           + (if is_leap y then 1 else 0))"

definition toordinal :: "date \<Rightarrow> int" where
  "toordinal d = days_before_year (year d) + days_before_month (year d) (month d) + day d"


definition date_less :: "date \<Rightarrow> date \<Rightarrow> bool" where
  "date_less a b =
     (year a < year b
      \<or> (year a = year b \<and> (month a < month b \<or> (month a = month b \<and> day a < day b))))"

definition date_le :: "date \<Rightarrow> date \<Rightarrow> bool" where
  "date_le a b = (a = b \<or> date_less a b)"

text \<open>\<^verbatim>\<open>frappe.utils.date_diff(d2, d1)\<close> is \<^verbatim>\<open>(getdate(d2) - getdate(d1)).days\<close>.\<close>

definition date_diff :: "date \<Rightarrow> date \<Rightarrow> int" where
  "date_diff d2 d1 = toordinal d2 - toordinal d1"

definition get_first_day :: "date \<Rightarrow> date" where
  "get_first_day d = Date (year d) (month d) 1"

definition get_last_day :: "date \<Rightarrow> date" where
  "get_last_day d = Date (year d) (month d) (days_in_month (year d) (month d))"

text \<open>
  \<^verbatim>\<open>frappe.utils.add_months(date, n)\<close> shifts the month and keeps the day, cut down to the
  length of the month reached.
\<close>

definition add_months :: "date \<Rightarrow> int \<Rightarrow> date" where
  "add_months d n =
     (let t = year d * 12 + (month d - 1) + n;
          y = t div 12;
          m = t mod 12 + 1
      in Date y m (min (day d) (days_in_month y m)))"

section \<open>Quantities and rounding\<close>

text \<open>
  Leave quantities are Python floats; they are modelled as exact rationals, so the
  arithmetic below is the arithmetic the floats approximate. \<^verbatim>\<open>frappe.utils.flt(x, precision)\<close>
  rounds to \<open>precision\<close> decimal digits with the rounding method of the system settings;
  the three methods of \<^verbatim>\<open>frappe.utils.rounded\<close> all round to a nearest multiple of
  \<open>10 ^ -precision\<close> and differ only in how a tie is broken.
\<close>

datatype rounding_method = Bankers_Rounding_Legacy | Bankers_Rounding | Commercial_Rounding

definition is_tie :: "rat \<Rightarrow> bool" where
  "is_tie y = (y - of_int \<lfloor>y\<rfloor> = 1 / 2)"

definition half_even :: "rat \<Rightarrow> int" where
  "half_even y = (if even \<lfloor>y\<rfloor> then \<lfloor>y\<rfloor> else \<lfloor>y\<rfloor> + 1)"

fun round_units :: "rounding_method \<Rightarrow> nat \<Rightarrow> rat \<Rightarrow> int" where
  "round_units Bankers_Rounding_Legacy p y =
     (if is_tie y then (if p = 0 then half_even y else \<lfloor>y\<rfloor> + 1) else \<lfloor>y + 1 / 2\<rfloor>)"
| "round_units Bankers_Rounding p y =
     (if is_tie y then half_even y else \<lfloor>y + 1 / 2\<rfloor>)"
| "round_units Commercial_Rounding p y =
     (if 0 \<le> y then \<lfloor>y + 1 / 2\<rfloor> else - \<lfloor>- y + 1 / 2\<rfloor>)"

definition rounded :: "rounding_method \<Rightarrow> rat \<Rightarrow> nat \<Rightarrow> rat" where
  "rounded m x p = of_int (round_units m p (x * 10 ^ p)) / 10 ^ p"

section \<open>Errors\<close>

text \<open>
  \<^verbatim>\<open>frappe.throw\<close> raises \<^verbatim>\<open>frappe.ValidationError\<close>; the two throws of the module are
  told apart by what they report. The other constructors are the Python exceptions the
  module's expressions can raise, and the error a Leave Allocation may raise when it is
  saved or submitted.
\<close>

datatype error =
    Conflict string string "date option" "date option"
  | AlreadyAllocated
  | DoesNotExistError
  | AllocationError bool
  | TypeError
  | AttributeError
  | ZeroDivisionError

text \<open>
  The handler of the bulk entry point catches \<^verbatim>\<open>frappe.exceptions.ValidationError\<close> and its
  subclasses. An \<open>AllocationError\<close> says itself whether it is one.
\<close>

fun is_validation_error :: "error \<Rightarrow> bool" where
  "is_validation_error (Conflict _ _ _ _) = True"
| "is_validation_error AlreadyAllocated = True"
| "is_validation_error DoesNotExistError = True"
| "is_validation_error (AllocationError v) = v"
| "is_validation_error TypeError = False"
| "is_validation_error AttributeError = False"
| "is_validation_error ZeroDivisionError = False"

section \<open>Documents\<close>

text \<open>
  A Leave Type descriptor, as \<^verbatim>\<open>get_leave_type_details\<close> fetches it. The check boxes are
  the integers 0 and 1 in the database and are booleans here.
\<close>

record leave_type =
  lt_name :: string
  is_lwp :: bool
  is_earned_leave :: bool
  is_compensatory :: bool
  allocate_on_day :: string
  is_carry_forward :: bool
  earned_leave_frequency :: string
  rounding :: string

record leave_policy_detail =
  leave_type :: string
  annual_allocation :: rat

text \<open>
  A Leave Policy Assignment. Documents are named by the framework when they are first
  saved; the names it generates are modelled as the running number of the document within
  its doctype, and an unsaved document has none. A field that may be unset is an option.
\<close>

record assignment =
  name :: "nat option"
  employee :: string
  assignment_based_on :: "string option"
  leave_policy :: string
  leave_period :: "string option"
  effective_from :: "date option"
  effective_to :: "date option"
  carry_forward :: bool
  leaves_allocated :: bool
  docstatus :: nat

record leave_allocation =
  al_name :: "nat option"
  al_employee :: string
  al_leave_type :: string
  al_from_date :: "date option"
  al_to_date :: "date option"
  new_leaves_allocated :: rat
  al_leave_period :: "string option"
  al_leave_policy_assignment :: "nat option"
  al_leave_policy :: string
  al_carry_forward :: bool
  al_docstatus :: nat

text \<open>The part of the database the module reads and writes.\<close>

record db =
  leave_periods :: "(string \<times> date \<times> date) list"
  employees :: "(string \<times> date option) list"
  leave_types :: "leave_type list"
  leave_policies :: "(string \<times> leave_policy_detail list) list"
  assignments :: "assignment list"
  allocations :: "leave_allocation list"

text \<open>
  What the module takes from its surroundings: the date override \<^verbatim>\<open>frappe.flags.current_date\<close>
  and the clock, the two precisions and the rounding method of the settings, the function
  \<^verbatim>\<open>hrms.hr.utils.get_monthly_earned_leave\<close> (of this repository, outside the file), and whether
  saving or submitting a Leave Allocation raises (its controller is outside the file too).
\<close>

record env =
  flags_current_date :: "date option"
  today :: date
  float_precision :: nat
  new_leaves_allocated_precision :: nat
  system_rounding_method :: rounding_method
  get_monthly_earned_leave :: "rat \<Rightarrow> string \<Rightarrow> string \<Rightarrow> rat"
  allocation_save_error :: "db \<Rightarrow> leave_allocation \<Rightarrow> error option"
  allocation_submit_error :: "db \<Rightarrow> leave_allocation \<Rightarrow> error option"

text \<open>\<^verbatim>\<open>getdate(x)\<close> is today's date when \<open>x\<close> is unset.\<close>

definition getdate :: "env \<Rightarrow> date option \<Rightarrow> date" where
  "getdate e d = (case d of None \<Rightarrow> today e | Some x \<Rightarrow> x)"

text \<open>
  The date the module takes for the current one:
  \<^verbatim>\<open>frappe.flags.current_date or getdate()\<close>, also written
  \<^verbatim>\<open>getdate(frappe.flags.current_date) or getdate()\<close>.
\<close>

definition flags_current_date_or_today :: "env \<Rightarrow> date" where
  "flags_current_date_or_today e = getdate e (flags_current_date e)"

definition flt :: "env \<Rightarrow> rat \<Rightarrow> nat \<Rightarrow> rat" where
  "flt e x precision = rounded (system_rounding_method e) x precision"

section \<open>The allocation calculator\<close>

definition is_earned_leave_applicable_for_current_month ::
    "env \<Rightarrow> date option \<Rightarrow> string \<Rightarrow> error + bool" where
  "is_earned_leave_applicable_for_current_month e date_of_joining allocate_on =
     (let date = flags_current_date_or_today e in
      if allocate_on = ''Date of Joining'' then
        (case date_of_joining of
           None \<Rightarrow> Inl AttributeError
         | Some j \<Rightarrow> Inr (day j \<le> day date))
      else if allocate_on = ''First Day'' then Inr (date_le (get_first_day date) date)
      else if allocate_on = ''Last Day'' then Inr (date = get_last_day date)
      else Inr False)"

text \<open>
  The first half of \<^verbatim>\<open>get_leaves_for_passed_months\<close>: the clamped current date, the start
  date and the count of months.
\<close>

definition months_passed :: "env \<Rightarrow> assignment \<Rightarrow> leave_type \<Rightarrow> date option \<Rightarrow> error + int" where
  "months_passed e self leave_details date_of_joining =
     (let current_date =
            (if date_less (getdate e (effective_to self)) (flags_current_date_or_today e)
             then getdate e (effective_to self) else flags_current_date_or_today e);
          from_date =
            (if date_less (getdate e (effective_from self)) (getdate e date_of_joining)
             then getdate e date_of_joining else getdate e (effective_from self))
      in
      if year current_date = year from_date \<and> month from_date \<le> month current_date then
        (case is_earned_leave_applicable_for_current_month e date_of_joining
                (allocate_on_day leave_details) of
           Inl err \<Rightarrow> Inl err
         | Inr b \<Rightarrow> Inr (month current_date - month from_date + (if b then 1 else 0)))
      else if year from_date < year current_date then
        (case is_earned_leave_applicable_for_current_month e date_of_joining
                (allocate_on_day leave_details) of
           Inl err \<Rightarrow> Inl err
         | Inr b \<Rightarrow> Inr ((12 - month from_date) + month current_date + (if b then 1 else 0)))
      else Inr 0)"

definition get_leaves_for_passed_months ::
    "env \<Rightarrow> assignment \<Rightarrow> rat \<Rightarrow> leave_type \<Rightarrow> date option \<Rightarrow> error + rat" where
  "get_leaves_for_passed_months e self new_leaves leave_details date_of_joining =
     (case months_passed e self leave_details date_of_joining of
        Inl err \<Rightarrow> Inl err
      | Inr mp \<Rightarrow>
          Inr (if 0 < mp then
                 get_monthly_earned_leave e new_leaves
                   (earned_leave_frequency leave_details) (rounding leave_details) * of_int mp
               else 0))"

definition calculate_pro_rated_leaves :: "env \<Rightarrow> rat \<Rightarrow> date \<Rightarrow> date \<Rightarrow> date \<Rightarrow> error + rat" where
  "calculate_pro_rated_leaves e leaves date_of_joining period_start_date period_end =
     (let actual_period = date_diff period_end date_of_joining + 1;
          complete_period = date_diff period_end period_start_date + 1
      in if complete_period = 0 then Inl ZeroDivisionError
         else Inr (flt e (leaves * (of_int actual_period / of_int complete_period))
                     (float_precision e)))"

text \<open>The end of the period that \<^verbatim>\<open>get_pro_rated_leaves\<close> pro-rates over.\<close>

definition period_end_date :: "env \<Rightarrow> assignment \<Rightarrow> date option \<Rightarrow> leave_type \<Rightarrow> error + date" where
  "period_end_date e self date_of_joining leave_details =
     (let date = flags_current_date_or_today e in
      if is_earned_leave leave_details then
        (case is_earned_leave_applicable_for_current_month e date_of_joining
                (allocate_on_day leave_details) of
           Inl err \<Rightarrow> Inl err
         | Inr b \<Rightarrow> Inr (if b then get_last_day date else get_last_day (add_months date (- 1))))
      else Inr (getdate e (effective_to self)))"

definition get_pro_rated_leaves ::
    "env \<Rightarrow> assignment \<Rightarrow> date option \<Rightarrow> leave_type \<Rightarrow> rat \<Rightarrow> error + rat" where
  "get_pro_rated_leaves e self date_of_joining leave_details new_leaves =
     (if new_leaves = 0
         \<or> date_le (getdate e date_of_joining) (getdate e (effective_from self))
      then Inr new_leaves
      else
        (case period_end_date e self date_of_joining leave_details of
           Inl err \<Rightarrow> Inl err
         | Inr period_end \<Rightarrow>
             (case calculate_pro_rated_leaves e new_leaves (getdate e date_of_joining)
                     (getdate e (effective_from self)) period_end of
                Inl err \<Rightarrow> Inl err
              | Inr leaves \<Rightarrow>
                  Inr (if is_earned_leave leave_details then leaves
                       else of_int \<lceil>leaves\<rceil>))))"

definition get_new_leaves ::
    "env \<Rightarrow> assignment \<Rightarrow> rat \<Rightarrow> leave_type \<Rightarrow> date option \<Rightarrow> error + rat" where
  "get_new_leaves e self new_leaves leave_details date_of_joining =
     (case (if is_compensatory leave_details then Inr 0
            else if is_earned_leave leave_details then
              (if assignment_based_on self = None \<or> assignment_based_on self = Some []
               then Inr 0
               else get_leaves_for_passed_months e self new_leaves leave_details date_of_joining)
            else Inr new_leaves) of
        Inl err \<Rightarrow> Inl err
      | Inr base \<Rightarrow>
          (case get_pro_rated_leaves e self date_of_joining leave_details base of
             Inl err \<Rightarrow> Inl err
           | Inr leaves \<Rightarrow> Inr (flt e leaves (new_leaves_allocated_precision e))))"

section \<open>Validation of an assignment\<close>

text \<open>\<^verbatim>\<open>frappe.db.get_value("Employee", employee, "date_of_joining")\<close>\<close>

definition get_date_of_joining :: "db \<Rightarrow> string \<Rightarrow> date option" where
  "get_date_of_joining d emp = (case map_of (employees d) emp of None \<Rightarrow> None | Some j \<Rightarrow> j)"

text \<open>
  \<^verbatim>\<open>frappe.db.get_value("Leave Period", leave_period, ["from_date", "to_date"])\<close> is \<^verbatim>\<open>None\<close>
  when there is no such record, and unpacking \<^verbatim>\<open>None\<close> into the two dates raises.
\<close>

definition set_dates :: "db \<Rightarrow> assignment \<Rightarrow> error + assignment" where
  "set_dates d self =
     (if assignment_based_on self = Some ''Leave Period'' then
        (case (case leave_period self of None \<Rightarrow> None | Some lp \<Rightarrow> map_of (leave_periods d) lp) of
           None \<Rightarrow> Inl TypeError
         | Some (from_date, to_date) \<Rightarrow>
             Inr (self\<lparr>effective_from := Some from_date, effective_to := Some to_date\<rparr>))
      else if assignment_based_on self = Some ''Joining Date'' then
        Inr (self\<lparr>effective_from := get_date_of_joining d (employee self)\<rparr>)
      else Inr self)"

text \<open>
  The comparisons of the overlap query. A comparison in which a date is unset is taken as
  not satisfied.
\<close>

fun date_opt_le :: "date option \<Rightarrow> date option \<Rightarrow> bool" where
  "date_opt_le (Some a) (Some b) = date_le a b"
| "date_opt_le _ _ = False"

definition validate_policy_assignment_overlap :: "db \<Rightarrow> assignment \<Rightarrow> error + unit" where
  "validate_policy_assignment_overlap d self =
     (let leave_policy_assignments =
            filter (\<lambda>b. employee b = employee self
                        \<and> name b \<noteq> name self
                        \<and> docstatus b = 1
                        \<and> date_opt_le (effective_from self) (effective_to b)
                        \<and> date_opt_le (effective_from b) (effective_to self))
              (assignments d)
      in if length leave_policy_assignments \<noteq> 0
         then Inl (Conflict (leave_policy self) (employee self)
                     (effective_from self) (effective_to self))
         else Inr ())"

text \<open>
  \<^verbatim>\<open>get_leave_type_details\<close>: the descriptors by name, the first of a name kept
  (\<^verbatim>\<open>setdefault\<close>).
\<close>

definition get_leave_type_details :: "db \<Rightarrow> string \<Rightarrow> leave_type option" where
  "get_leave_type_details d = map_of (map (\<lambda>t. (lt_name t, t)) (leave_types d))"

text \<open>
  The loop of \<^verbatim>\<open>warn_about_carry_forwarding\<close>; its result is the list of the leave types
  a message is printed for. A leave type of the policy that has no descriptor raises, since
  \<^verbatim>\<open>leave_types.get\<close> gives \<^verbatim>\<open>None\<close>.
\<close>

fun carry_forwarding_warnings ::
    "(string \<Rightarrow> leave_type option) \<Rightarrow> leave_policy_detail list \<Rightarrow> error + string list" where
  "carry_forwarding_warnings lts [] = Inr []"
| "carry_forwarding_warnings lts (policy # rest) =
     (case lts (leave_type policy) of
        None \<Rightarrow> Inl AttributeError
      | Some lt \<Rightarrow>
          (case carry_forwarding_warnings lts rest of
             Inl err \<Rightarrow> Inl err
           | Inr msgs \<Rightarrow> Inr (if is_carry_forward lt then msgs else lt_name lt # msgs)))"

definition warn_about_carry_forwarding :: "db \<Rightarrow> assignment \<Rightarrow> error + string list" where
  "warn_about_carry_forwarding d self =
     (if carry_forward self then
        (case map_of (leave_policies d) (leave_policy self) of
           None \<Rightarrow> Inl DoesNotExistError
         | Some details \<Rightarrow> carry_forwarding_warnings (get_leave_type_details d) details)
      else Inr [])"

definition validate :: "db \<Rightarrow> assignment \<Rightarrow> error + assignment" where
  "validate d self =
     (case set_dates d self of
        Inl err \<Rightarrow> Inl err
      | Inr self1 \<Rightarrow>
          (case validate_policy_assignment_overlap d self1 of
             Inl err \<Rightarrow> Inl err
           | Inr _ \<Rightarrow>
               (case warn_about_carry_forwarding d self1 of
                  Inl err \<Rightarrow> Inl err
                | Inr _ \<Rightarrow> Inr self1)))"

section \<open>Granting the allocations\<close>

text \<open>
  Saving and submitting a Leave Allocation, as the framework does it: the document gets
  its name and is stored as a draft; submitting stores it with docstatus 1. Either step
  may raise, and then writes nothing.
\<close>

definition allocation_save :: "env \<Rightarrow> db \<Rightarrow> leave_allocation \<Rightarrow> (error + leave_allocation) \<times> db" where
  "allocation_save e d allocation =
     (let named = allocation\<lparr>al_name := Some (length (allocations d))\<rparr> in
      case allocation_save_error e d named of
        Some err \<Rightarrow> (Inl err, d)
      | None \<Rightarrow> (Inr named, d\<lparr>allocations := allocations d @ [named]\<rparr>))"

definition allocation_submit :: "env \<Rightarrow> db \<Rightarrow> leave_allocation \<Rightarrow> (error + leave_allocation) \<times> db" where
  "allocation_submit e d allocation =
     (case allocation_submit_error e d allocation of
        Some err \<Rightarrow> (Inl err, d)
      | None \<Rightarrow>
          (let submitted = allocation\<lparr>al_docstatus := 1\<rparr> in
           (Inr submitted,
            d\<lparr>allocations :=
                map (\<lambda>x. if al_name x = al_name allocation then submitted else x)
                  (allocations d)\<rparr>)))"

definition create_leave_allocation ::
    "env \<Rightarrow> assignment \<Rightarrow> rat \<Rightarrow> leave_type \<Rightarrow> date option \<Rightarrow> db
     \<Rightarrow> (error + nat option \<times> rat) \<times> db" where
  "create_leave_allocation e self new_leaves leave_details date_of_joining d =
     (let carry =
            (if carry_forward self \<and> \<not> is_carry_forward leave_details then False
             else carry_forward self)
      in
      case get_new_leaves e self new_leaves leave_details date_of_joining of
        Inl err \<Rightarrow> (Inl err, d)
      | Inr leaves \<Rightarrow>
          (let allocation =
                 \<lparr>al_name = None,
                  al_employee = employee self,
                  al_leave_type = lt_name leave_details,
                  al_from_date = effective_from self,
                  al_to_date = effective_to self,
                  new_leaves_allocated = leaves,
                  al_leave_period =
                    (if assignment_based_on self = Some ''Leave Policy''
                     then leave_period self else Some []),
                  al_leave_policy_assignment = name self,
                  al_leave_policy = leave_policy self,
                  al_carry_forward = carry,
                  al_docstatus = 0\<rparr>
           in
           case allocation_save e d allocation of
             (Inl err, d1) \<Rightarrow> (Inl err, d1)
           | (Inr saved, d1) \<Rightarrow>
               (case allocation_submit e d1 saved of
                  (Inl err, d2) \<Rightarrow> (Inl err, d2)
                | (Inr submitted, d2) \<Rightarrow> (Inr (al_name submitted, leaves), d2))))"

text \<open>
  The loop of \<^verbatim>\<open>grant_leave_alloc_for_employee\<close> over the details of the policy. The
  dictionary \<^verbatim>\<open>leave_allocations\<close> is an association list: a key set again keeps its place
  and takes the new value.
\<close>

type_synonym leave_allocations = "(string \<times> nat option \<times> rat) list"

fun grant_details ::
    "env \<Rightarrow> assignment \<Rightarrow> (string \<Rightarrow> leave_type option) \<Rightarrow> date option
     \<Rightarrow> leave_policy_detail list \<Rightarrow> leave_allocations \<Rightarrow> db
     \<Rightarrow> (error + leave_allocations) \<times> db" where
  "grant_details e self lts date_of_joining [] leave_allocations d = (Inr leave_allocations, d)"
| "grant_details e self lts date_of_joining (detail # rest) leave_allocations d =
     (case lts (leave_type detail) of
        None \<Rightarrow> (Inl AttributeError, d)
      | Some leave_details \<Rightarrow>
          if \<not> is_lwp leave_details then
            (case create_leave_allocation e self (annual_allocation detail) leave_details
                    date_of_joining d of
               (Inl err, d1) \<Rightarrow> (Inl err, d1)
             | (Inr created, d1) \<Rightarrow>
                 grant_details e self lts date_of_joining rest
                   (AList.update (lt_name leave_details) created leave_allocations) d1)
          else grant_details e self lts date_of_joining rest leave_allocations d)"

text \<open>The details of a policy that the loop creates an allocation for.\<close>

definition non_lwp_details ::
    "(string \<Rightarrow> leave_type option) \<Rightarrow> leave_policy_detail list \<Rightarrow> leave_policy_detail list" where
  "non_lwp_details lts details =
     filter (\<lambda>detail. case lts (leave_type detail) of
                         None \<Rightarrow> False
                       | Some leave_details \<Rightarrow> \<not> is_lwp leave_details)
       details"

text \<open>\<^verbatim>\<open>self.db_set("leaves_allocated", 1)\<close> writes the document and its stored row.\<close>

definition db_set_leaves_allocated :: "assignment \<Rightarrow> db \<Rightarrow> assignment \<times> db" where
  "db_set_leaves_allocated self d =
     (self\<lparr>leaves_allocated := True\<rparr>,
      d\<lparr>assignments :=
          map (\<lambda>b. if name b = name self then b\<lparr>leaves_allocated := True\<rparr> else b)
            (assignments d)\<rparr>)"

text \<open>
  The result of the operation is its outcome, the document afterwards and the database
  afterwards: an exception leaves what was written before it.
\<close>

definition grant_leave_alloc_for_employee ::
    "env \<Rightarrow> assignment \<Rightarrow> db \<Rightarrow> (error + leave_allocations) \<times> assignment \<times> db" where
  "grant_leave_alloc_for_employee e self d =
     (if leaves_allocated self then (Inl AlreadyAllocated, self, d)
      else
        (case map_of (leave_policies d) (leave_policy self) of
           None \<Rightarrow> (Inl DoesNotExistError, self, d)
         | Some details \<Rightarrow>
             (case grant_details e self (get_leave_type_details d)
                     (get_date_of_joining d (employee self)) details [] d of
                (Inl err, d1) \<Rightarrow> (Inl err, self, d1)
              | (Inr leave_allocations, d1) \<Rightarrow>
                  (case db_set_leaves_allocated self d1 of
                     (self1, d2) \<Rightarrow> (Inr leave_allocations, self1, d2)))))"

section \<open>The document life cycle and bulk creation\<close>

text \<open>
  The framework calls the hooks of the class: saving a document runs \<^verbatim>\<open>validate\<close> before the
  row is written; submitting sets docstatus 1, runs \<^verbatim>\<open>validate\<close>, writes the row and then runs
  \<^verbatim>\<open>on_submit\<close>, which is \<^verbatim>\<open>grant_leave_alloc_for_employee\<close>.
\<close>

definition save :: "db \<Rightarrow> assignment \<Rightarrow> (error + assignment) \<times> db" where
  "save d doc =
     (let named = doc\<lparr>name := Some (length (assignments d))\<rparr> in
      case validate d named of
        Inl err \<Rightarrow> (Inl err, d)
      | Inr doc1 \<Rightarrow> (Inr doc1, d\<lparr>assignments := assignments d @ [doc1]\<rparr>))"

definition submit :: "env \<Rightarrow> db \<Rightarrow> assignment \<Rightarrow> (error + assignment) \<times> db" where
  "submit e d doc =
     (case validate d (doc\<lparr>docstatus := 1\<rparr>) of
        Inl err \<Rightarrow> (Inl err, d)
      | Inr doc1 \<Rightarrow>
          (let d1 = d\<lparr>assignments :=
                       map (\<lambda>b. if name b = name doc1 then doc1 else b) (assignments d)\<rparr>
           in case grant_leave_alloc_for_employee e doc1 d1 of
                (Inl err, doc2, d2) \<Rightarrow> (Inl err, d2)
              | (Inr _, doc2, d2) \<Rightarrow> (Inr doc2, d2)))"

text \<open>The shared data of a bulk creation, after \<^verbatim>\<open>json.loads\<close>.\<close>

record assignment_data =
  data_assignment_based_on :: "string option"
  data_leave_policy :: string
  data_effective_from :: "date option"
  data_effective_to :: "date option"
  data_leave_period :: "string option"
  data_carry_forward :: bool

text \<open>\<^verbatim>\<open>x or None\<close> for a string \<open>x\<close>\<close>

definition or_None :: "string option \<Rightarrow> string option" where
  "or_None x = (if x = Some [] then None else x)"

definition new_assignment :: "env \<Rightarrow> string \<Rightarrow> assignment_data \<Rightarrow> assignment" where
  "new_assignment e emp data =
     \<lparr>name = None,
      employee = emp,
      assignment_based_on = or_None (data_assignment_based_on data),
      leave_policy = data_leave_policy data,
      leave_period = or_None (data_leave_period data),
      effective_from = Some (getdate e (data_effective_from data)),
      effective_to = Some (getdate e (data_effective_to data)),
      carry_forward = data_carry_forward data,
      leaves_allocated = False,
      docstatus = 0\<rparr>"

text \<open>
  The loop of \<^verbatim>\<open>create_assignment_for_multiple_employees\<close>. \<^verbatim>\<open>assignment.save()\<close> stands
  before the \<^verbatim>\<open>try\<close>: what it raises leaves the function. Of what \<^verbatim>\<open>assignment.submit()\<close>
  raises, a validation error is caught and the loop goes on with the next employee.
\<close>

fun create_assignments ::
    "env \<Rightarrow> assignment_data \<Rightarrow> string list \<Rightarrow> nat option list \<Rightarrow> db
     \<Rightarrow> (error + nat option list) \<times> db" where
  "create_assignments e data [] docs_name d = (Inr docs_name, d)"
| "create_assignments e data (emp # rest) docs_name d =
     (case save d (new_assignment e emp data) of
        (Inl err, d1) \<Rightarrow> (Inl err, d1)
      | (Inr doc, d1) \<Rightarrow>
          (case submit e d1 doc of
             (Inl err, d2) \<Rightarrow>
               if is_validation_error err then create_assignments e data rest docs_name d2
               else (Inl err, d2)
           | (Inr doc1, d2) \<Rightarrow> create_assignments e data rest (docs_name @ [name doc1]) d2))"

definition create_assignment_for_multiple_employees ::
    "env \<Rightarrow> string list \<Rightarrow> assignment_data \<Rightarrow> db \<Rightarrow> (error + nat option list) \<times> db" where
  "create_assignment_for_multiple_employees e emps data d = create_assignments e data emps [] d"

section \<open>The months-passed rule in the words of the specification\<close>

text \<open>
  The allocation for the months passed as the specification words it, to be compared with
  \<open>get_leaves_for_passed_months\<close>: the reference date is the current date clamped to
  \<open>effective_to\<close>; the start is the later of the joining date and \<open>effective_from\<close>; the months
  are counted by the three cases; then, whenever the allocate-on-day rule, evaluated
  against the reference date, says that the current month is earned, one is added; the
  result is the monthly rate times the months if there are any, else 0.
\<close>

definition claimed_leaves_for_passed_months ::
    "env \<Rightarrow> assignment \<Rightarrow> rat \<Rightarrow> leave_type \<Rightarrow> date option \<Rightarrow> error + rat" where
  "claimed_leaves_for_passed_months e self annual leave_details date_of_joining =
     (let reference_date =
            (if date_less (getdate e (effective_to self)) (flags_current_date_or_today e)
             then getdate e (effective_to self) else flags_current_date_or_today e);
          from_date =
            (if date_less (getdate e (effective_from self)) (getdate e date_of_joining)
             then getdate e date_of_joining else getdate e (effective_from self));
          counted =
            (if year reference_date = year from_date \<and> month from_date \<le> month reference_date
             then month reference_date - month from_date
             else if year from_date < year reference_date
             then (12 - month from_date) + month reference_date
             else 0)
      in case is_earned_leave_applicable_for_current_month
                (e\<lparr>flags_current_date := Some reference_date\<rparr>) date_of_joining
                (allocate_on_day leave_details) of
           Inl err \<Rightarrow> Inl err
         | Inr earned \<Rightarrow>
             (let months = counted + (if earned then 1 else 0)
              in Inr (if 0 < months then
                        get_monthly_earned_leave e annual
                          (earned_leave_frequency leave_details) (rounding leave_details)
                          * of_int months
                      else 0)))"

section \<open>Example inputs\<close>

text \<open>
  A site with one leave period (the year 2021), three employees and a policy of two
  leave types, and the settings of a fresh installation: precision 3 and the legacy
  rounding. The monthly rate of an earned leave type is taken as a twelfth of the annual
  allocation.
\<close>

definition example_env :: env where
  "example_env =
     \<lparr>flags_current_date = Some (Date 2021 4 15),
      today = Date 2021 4 20,
      float_precision = 3,
      new_leaves_allocated_precision = 3,
      system_rounding_method = Bankers_Rounding_Legacy,
      get_monthly_earned_leave = (\<lambda>annual frequency rounding_rule. annual / 12),
      allocation_save_error = (\<lambda>d al. None),
      allocation_submit_error = (\<lambda>d al. None)\<rparr>"

definition casual_leave :: leave_type where
  "casual_leave =
     \<lparr>lt_name = ''Casual Leave'', is_lwp = False, is_earned_leave = False,
      is_compensatory = False, allocate_on_day = ''Last Day'', is_carry_forward = False,
      earned_leave_frequency = ''Monthly'', rounding = ''0.5''\<rparr>"

definition earned_leave :: leave_type where
  "earned_leave =
     \<lparr>lt_name = ''Earned Leave'', is_lwp = False, is_earned_leave = True,
      is_compensatory = False, allocate_on_day = ''First Day'', is_carry_forward = True,
      earned_leave_frequency = ''Monthly'', rounding = ''0.5''\<rparr>"

definition compensatory_off :: leave_type where
  "compensatory_off =
     \<lparr>lt_name = ''Compensatory Off'', is_lwp = False, is_earned_leave = False,
      is_compensatory = True, allocate_on_day = ''Last Day'', is_carry_forward = False,
      earned_leave_frequency = ''Monthly'', rounding = ''0.5''\<rparr>"

definition example_assignment :: assignment where
  "example_assignment =
     \<lparr>name = Some 0, employee = ''EMP-1'', assignment_based_on = Some ''Leave Period'',
      leave_policy = ''POLICY'', leave_period = Some ''2021'',
      effective_from = Some (Date 2021 1 1), effective_to = Some (Date 2021 12 31),
      carry_forward = False, leaves_allocated = False, docstatus = 0\<rparr>"

definition example_db :: db where
  "example_db =
     \<lparr>leave_periods = [(''2021'', Date 2021 1 1, Date 2021 12 31)],
      employees = [(''EMP-1'', Some (Date 2020 3 1)), (''EMP-2'', Some (Date 2021 7 1)),
                   (''EMP-3'', Some (Date 2019 1 1))],
      leave_types = [casual_leave, earned_leave],
      leave_policies =
        [(''POLICY'', [\<lparr>leave_type = ''Casual Leave'', annual_allocation = 24\<rparr>,
                       \<lparr>leave_type = ''Earned Leave'', annual_allocation = 24\<rparr>])],
      assignments = [],
      allocations = []\<rparr>"

definition example_data :: assignment_data where
  "example_data =
     \<lparr>data_assignment_based_on = Some ''Leave Period'', data_leave_policy = ''POLICY'',
      data_effective_from = Some (Date 2021 1 1), data_effective_to = Some (Date 2021 12 31),
      data_leave_period = Some ''2021'', data_carry_forward = False\<rparr>"

text \<open>
  The same surroundings, with a Leave Allocation controller that refuses to submit an
  allocation of the earned leave type.
\<close>

definition example_env_refusing :: env where
  "example_env_refusing =
     example_env
       \<lparr>allocation_submit_error :=
          (\<lambda>d al. if al_leave_type al = ''Earned Leave'' then Some (AllocationError True)
                   else None)\<rparr>"

text \<open>
  The same surroundings, with a Leave Allocation controller that refuses, with a
  validation error, to submit any allocation of EMP-2.
\<close>

definition example_env_refusing_one :: env where
  "example_env_refusing_one =
     example_env
       \<lparr>allocation_submit_error :=
          (\<lambda>d al. if al_employee al = ''EMP-2'' then Some (AllocationError True) else None)\<rparr>"

text \<open>
  The same site after EMP-2 has been given a submitted assignment for the first half of
  2021.
\<close>

definition example_db_prior :: db where
  "example_db_prior =
     example_db
       \<lparr>assignments :=
          [\<lparr>name = Some 0, employee = ''EMP-2'', assignment_based_on = None,
            leave_policy = ''POLICY'', leave_period = None,
            effective_from = Some (Date 2021 1 1), effective_to = Some (Date 2021 6 30),
            carry_forward = False, leaves_allocated = True, docstatus = 1\<rparr>]\<rparr>"

section \<open>Facts about dates\<close>
















section \<open>Facts about rounding\<close>

lemma floor_add_half_bounds: "\<lfloor>y\<rfloor> \<le> \<lfloor>y + 1 / 2 :: rat\<rfloor> \<and> \<lfloor>y + 1 / 2\<rfloor> \<le> \<lceil>y\<rceil>"
  by linarith

lemma floor_add_half_near: "\<bar>of_int \<lfloor>y + 1 / 2 :: rat\<rfloor> - y\<bar> \<le> 1 / 2"
  by linarith

lemma neg_floor_half_bounds:
  "\<lfloor>y\<rfloor> \<le> - \<lfloor>- y + 1 / 2 :: rat\<rfloor> \<and> - \<lfloor>- y + 1 / 2\<rfloor> \<le> \<lceil>y\<rceil>"
  by linarith

lemma neg_floor_half_near: "\<bar>of_int (- \<lfloor>- y + 1 / 2 :: rat\<rfloor>) - y\<bar> \<le> 1 / 2"
  by linarith

lemma is_tie_ceiling: "is_tie y \<Longrightarrow> \<lceil>y\<rceil> = \<lfloor>y\<rfloor> + 1"
  unfolding is_tie_def by linarith

lemma round_units_bounds: "\<lfloor>y\<rfloor> \<le> round_units m p y \<and> round_units m p y \<le> \<lceil>y\<rceil>"
  using floor_add_half_bounds[of y] neg_floor_half_bounds[of y] is_tie_ceiling[of y]
  by (cases m) (auto simp add: half_even_def)

lemma round_units_near: "\<bar>of_int (round_units m p y) - y\<bar> \<le> 1 / 2"
  using floor_add_half_near[of y] neg_floor_half_near[of y]
  by (cases m) (auto simp add: half_even_def is_tie_def)

lemma round_units_0: "round_units m p 0 = 0"
  using round_units_bounds[of 0 m p] by simp

lemma rounded_0: "rounded m 0 p = 0"
  by (simp add: rounded_def round_units_0)

lemma rounded_le_of_int:
  assumes "x \<le> of_int N"
  shows "rounded m x p \<le> of_int N"
proof -
  have "x * 10 ^ p \<le> of_int (N * 10 ^ p)"
    using assms by (simp add: mult_right_mono)
  then have "\<lceil>x * 10 ^ p\<rceil> \<le> N * 10 ^ p"
    by (simp only: ceiling_le_iff)
  then have "round_units m p (x * 10 ^ p) \<le> N * 10 ^ p"
    using round_units_bounds[of "x * 10 ^ p" m p] by linarith
  then have "(of_int (round_units m p (x * 10 ^ p)) :: rat) \<le> of_int (N * 10 ^ p)"
    by (simp only: of_int_le_iff)
  then show ?thesis
    by (simp add: rounded_def pos_divide_le_eq)
qed

lemma rounded_ge_of_int:
  assumes "of_int N \<le> x"
  shows "of_int N \<le> rounded m x p"
proof -
  have "of_int (N * 10 ^ p) \<le> x * 10 ^ p"
    using assms by (simp add: mult_right_mono)
  then have "N * 10 ^ p \<le> \<lfloor>x * 10 ^ p\<rfloor>"
    by (simp only: le_floor_iff)
  then have "N * 10 ^ p \<le> round_units m p (x * 10 ^ p)"
    using round_units_bounds[of "x * 10 ^ p" m p] by linarith
  then have "(of_int (N * 10 ^ p) :: rat) \<le> of_int (round_units m p (x * 10 ^ p))"
    by (simp only: of_int_le_iff)
  then show ?thesis
    by (simp add: rounded_def pos_le_divide_eq)
qed

lemma rounded_near: "\<bar>rounded m x p - x\<bar> \<le> 1 / (2 * 10 ^ p)"
proof -
  have pos: "(0::rat) < 10 ^ p" by simp
  have "rounded m x p - x = (of_int (round_units m p (x * 10 ^ p)) - x * 10 ^ p) / 10 ^ p"
    by (simp add: rounded_def diff_divide_distrib)
  then have "\<bar>rounded m x p - x\<bar> = \<bar>of_int (round_units m p (x * 10 ^ p)) - x * 10 ^ p\<bar> / 10 ^ p"
    by (simp add: abs_divide del: of_int_power)
  also have "\<dots> \<le> (1 / 2) / 10 ^ p"
    using round_units_near[of m p "x * 10 ^ p"] pos by (simp only: divide_right_mono less_imp_le)
  finally show ?thesis by simp
qed

lemma flt_0: "flt e 0 p = 0"
  by (simp add: flt_def rounded_0)

section \<open>The allocation for the months passed\<close>

text \<open>
  C1 (as stated). The specification adds one month whenever the allocate-on-day rule holds
  and evaluates the rule against the clamped reference date. The code differs on both
  counts. First input: the assignment starts on 1 March 2021 and the current date is
  15 April 2020 (an assignment entered ahead of its period), rule "First Day": the code
  counts no month and allocates 0, the specification's wording counts one month and
  allocates the monthly rate 2. Second input: the assignment ends on 15 June 2021 and the
  current date is 31 July 2021, rule "Last Day": the code evaluates the rule on 31 July
  and allocates 6 months (12), the wording evaluates it on 15 June and allocates 5
  months (10).
\<close>

theorem months_passed_claim_counterexample:
  "get_leaves_for_passed_months (example_env\<lparr>flags_current_date := Some (Date 2020 4 15)\<rparr>)
       (example_assignment\<lparr>effective_from := Some (Date 2021 3 1)\<rparr>)
       24 earned_leave (Some (Date 2019 1 1)) = Inr 0
   \<and> claimed_leaves_for_passed_months (example_env\<lparr>flags_current_date := Some (Date 2020 4 15)\<rparr>)
       (example_assignment\<lparr>effective_from := Some (Date 2021 3 1)\<rparr>)
       24 earned_leave (Some (Date 2019 1 1)) = Inr 2
   \<and> get_leaves_for_passed_months (example_env\<lparr>flags_current_date := Some (Date 2021 7 31)\<rparr>)
       (example_assignment\<lparr>effective_to := Some (Date 2021 6 15)\<rparr>)
       24 (earned_leave\<lparr>allocate_on_day := ''Last Day''\<rparr>) (Some (Date 2019 1 1)) = Inr 12
   \<and> claimed_leaves_for_passed_months (example_env\<lparr>flags_current_date := Some (Date 2021 7 31)\<rparr>)
       (example_assignment\<lparr>effective_to := Some (Date 2021 6 15)\<rparr>)
       24 (earned_leave\<lparr>allocate_on_day := ''Last Day''\<rparr>) (Some (Date 2019 1 1)) = Inr 10"
  by code_simp

text \<open>
  C1 (amended). With the reference date the current date clamped to \<open>effective_to\<close> and the
  start the later of the joining date and \<open>effective_from\<close>: in the same calendar year with
  the reference month not before the start month, the months passed are the difference
  of the months; with the reference year after the start year they are
  \<open>(12 - start month) + reference month\<close>; in these two cases one month is added when the
  allocate-on-day rule, evaluated against the current date before clamping, holds;
  otherwise the months passed are 0 and nothing is added. The result is the monthly rate
  times the months passed when these are positive, else 0.
\<close>

theorem leaves_for_passed_months_formula:
  assumes "is_earned_leave_applicable_for_current_month e date_of_joining
             (allocate_on_day leave_details) = Inr earned"
  shows "get_leaves_for_passed_months e self annual leave_details date_of_joining =
     (let reference_date =
            (if date_less (getdate e (effective_to self)) (flags_current_date_or_today e)
             then getdate e (effective_to self) else flags_current_date_or_today e);
          from_date =
            (if date_less (getdate e (effective_from self)) (getdate e date_of_joining)
             then getdate e date_of_joining else getdate e (effective_from self));
          months =
            (if year reference_date = year from_date \<and> month from_date \<le> month reference_date
             then month reference_date - month from_date + (if earned then 1 else 0)
             else if year from_date < year reference_date
             then (12 - month from_date) + month reference_date + (if earned then 1 else 0)
             else 0)
      in Inr (if 0 < months then
                get_monthly_earned_leave e annual
                  (earned_leave_frequency leave_details) (rounding leave_details) * of_int months
              else 0))"
  using assms
  by (simp add: get_leaves_for_passed_months_def months_passed_def Let_def)

text \<open>
  The example of the specification: monthly rate 2, period from 1 January, current date
  15 April, rule "First Day", joined on 1 January: 3 months and the current one, 8 leaves.
\<close>

theorem leaves_for_passed_months_formula_witness:
  "is_earned_leave_applicable_for_current_month example_env (Some (Date 2021 1 1))
     (allocate_on_day earned_leave) = Inr True
   \<and> get_leaves_for_passed_months example_env example_assignment 24 earned_leave
       (Some (Date 2021 1 1)) = Inr 8"
proof -
  have h: "is_earned_leave_applicable_for_current_month example_env (Some (Date 2021 1 1))
             (allocate_on_day earned_leave) = Inr True"
    by code_simp
  have "get_leaves_for_passed_months example_env example_assignment 24 earned_leave
          (Some (Date 2021 1 1)) =
     (let reference_date =
            (if date_less (getdate example_env (effective_to example_assignment))
                  (flags_current_date_or_today example_env)
             then getdate example_env (effective_to example_assignment)
             else flags_current_date_or_today example_env);
          from_date =
            (if date_less (getdate example_env (effective_from example_assignment))
                  (getdate example_env (Some (Date 2021 1 1)))
             then getdate example_env (Some (Date 2021 1 1))
             else getdate example_env (effective_from example_assignment));
          months =
            (if year reference_date = year from_date \<and> month from_date \<le> month reference_date
             then month reference_date - month from_date + (if True then 1 else 0)
             else if year from_date < year reference_date
             then (12 - month from_date) + month reference_date + (if True then 1 else 0)
             else 0)
      in Inr (if 0 < months then
                get_monthly_earned_leave example_env 24
                  (earned_leave_frequency earned_leave) (rounding earned_leave) * of_int months
              else 0))"
    by (rule leaves_for_passed_months_formula[OF h])
  also have "\<dots> = Inr 8"
    by code_simp
  finally show ?thesis using h by simp
qed

section \<open>Pro-ration\<close>








section \<open>A late joiner in a calendar-year period\<close>

lemma date_diff_jul_dec: "date_diff (Date y 12 31) (Date y 7 1) = 183"
  by (simp add: date_diff_def toordinal_def days_before_month_def)

lemma date_diff_jan_dec: "date_diff (Date y 12 31) (Date y 1 1) = (if is_leap y then 365 else 364)"
  by (simp add: date_diff_def toordinal_def days_before_month_def)

lemma rounded_of_int: "rounded m (of_int N) p = of_int N"
proof (rule antisym)
  show "rounded m (of_int N) p \<le> of_int N"
    by (rule rounded_le_of_int) simp
  show "of_int N \<le> rounded m (of_int N) p"
    by (rule rounded_ge_of_int) simp
qed

lemma tenth_power_bound:
  assumes "1 \<le> p"
  shows "1 / (2 * 10 ^ p) \<le> (1 / 20 :: rat)"
proof -
  have "(10::rat) ^ 1 \<le> 10 ^ p"
    using assms by (intro power_increasing) simp_all
  then have "(20::rat) \<le> 2 * 10 ^ p"
    by simp
  then show ?thesis
    by (simp add: field_simps)
qed

lemma ceiling_rounded_13:
  assumes "1 \<le> p" "603 / 50 \<le> x" "x \<le> 121 / 10"
  shows "\<lceil>rounded m x p\<rceil> = 13"
proof -
  have "\<bar>rounded m x p - x\<bar> \<le> 1 / 20"
    using rounded_near[of m x p] tenth_power_bound[OF assms(1)] by linarith
  then have "12 < rounded m x p \<and> rounded m x p \<le> 13"
    using assms(2,3) by linarith
  then show ?thesis
    by (intro ceiling_unique) simp_all
qed

lemma rounded_12_at_precision_0:
  assumes "603 / 50 \<le> x" "x \<le> 121 / 10"
  shows "rounded m x 0 = 12"
proof -
  define r where "r = round_units m 0 x"
  have "\<bar>of_int r - x\<bar> \<le> 1 / 2"
    unfolding r_def by (rule round_units_near)
  then have b: "(11::rat) < of_int r" "(of_int r :: rat) < 13"
    using assms by linarith+
  have "11 < r"
    using b(1) of_int_less_iff[of 11 r, where ?'a = rat] by simp
  moreover have "r < 13"
    using b(2) of_int_less_iff[of r 13, where ?'a = rat] by simp
  ultimately have "r = 12"
    by simp
  then show ?thesis
    by (simp add: rounded_def r_def)
qed

text \<open>
  C6 (as stated). The quantity is 13 only if the float precision of the system settings is
  at least 1. The setting may be blank, which the code reads as 0 (\<^verbatim>\<open>cint\<close>); then the
  pro-rated 12.0986 is rounded to 12 before the ceiling is taken, and the quantity is 12.
\<close>

theorem july_joiner_claim_counterexample:
  "get_new_leaves (example_env\<lparr>float_precision := 0\<rparr>) example_assignment 24 casual_leave
     (Some (Date 2021 7 1)) = Inr 12"
  by code_simp

text \<open>
  C6 (amended). For a non-earned (and non-compensatory) leave type with annual allocation
  24, an assignment period from 1 January to 31 December of one year and a joining date of
  1 July of that year, the computed allocation quantity is 13 whenever the float precision
  of the system settings is at least 1 (the ceiling of 24 x 184/365, or of 24 x 184/366 in
  a leap year), and 12 when the float precision is 0.
\<close>

theorem july_joiner_allocation:
  assumes plain: "\<not> is_earned_leave leave_details" "\<not> is_compensatory leave_details"
    and period: "effective_from self = Some (Date y 1 1)" "effective_to self = Some (Date y 12 31)"
  shows "get_new_leaves e self 24 leave_details (Some (Date y 7 1))
           = Inr (if float_precision e = 0 then 12 else 13)"
proof -
  define c :: int where "c = (if is_leap y then 366 else 365)"
  define x :: rat where "x = 24 * (184 / of_int c)"
  define k :: int where "k = (if float_precision e = 0 then 12 else 13)"
  have later: "\<not> date_le (Date y 7 1) (Date y 1 1)"
    by (simp add: date_le_def date_less_def)
  have pe: "period_end_date e self (Some (Date y 7 1)) leave_details = Inr (Date y 12 31)"
    using plain period by (simp add: period_end_date_def getdate_def)
  have calc: "calculate_pro_rated_leaves e 24 (Date y 7 1) (Date y 1 1) (Date y 12 31)
                = Inr (flt e x (float_precision e))"
    by (simp add: calculate_pro_rated_leaves_def date_diff_jul_dec date_diff_jan_dec c_def x_def)
  have range: "603 / 50 \<le> x \<and> x \<le> 121 / 10"
    by (simp add: x_def c_def)
  have ceil: "\<lceil>flt e x (float_precision e)\<rceil> = k"
  proof (cases "float_precision e = 0")
    case True
    have "rounded (system_rounding_method e) x 0 = 12"
      using range by (intro rounded_12_at_precision_0) simp_all
    then show ?thesis
      using True by (simp add: flt_def k_def)
  next
    case False
    then have "1 \<le> float_precision e" by simp
    then have "\<lceil>rounded (system_rounding_method e) x (float_precision e)\<rceil> = 13"
      using range by (intro ceiling_rounded_13) simp_all
    then show ?thesis
      using False by (simp add: flt_def k_def)
  qed
  have "get_pro_rated_leaves e self (Some (Date y 7 1)) leave_details 24 = Inr (of_int k)"
    using later plain by (simp add: get_pro_rated_leaves_def getdate_def period pe calc ceil)
  moreover have "flt e (of_int k) (new_leaves_allocated_precision e) = of_int k"
    unfolding flt_def by (rule rounded_of_int)
  ultimately have "get_new_leaves e self 24 leave_details (Some (Date y 7 1)) = Inr (of_int k)"
    using plain by (simp add: get_new_leaves_def)
  then show ?thesis
    by (simp add: k_def)
qed

theorem july_joiner_allocation_witness:
  "\<not> is_earned_leave casual_leave \<and> \<not> is_compensatory casual_leave
   \<and> effective_from example_assignment = Some (Date 2021 1 1)
   \<and> effective_to example_assignment = Some (Date 2021 12 31)
   \<and> float_precision example_env = 3
   \<and> get_new_leaves example_env example_assignment 24 casual_leave (Some (Date 2021 7 1)) = Inr 13"
proof -
  have h2: "\<not> is_earned_leave casual_leave" by (simp add: casual_leave_def)
  have h3: "\<not> is_compensatory casual_leave" by (simp add: casual_leave_def)
  have h4: "effective_from example_assignment = Some (Date 2021 1 1)"
    by (simp add: example_assignment_def)
  have h5: "effective_to example_assignment = Some (Date 2021 12 31)"
    by (simp add: example_assignment_def)
  have p: "float_precision example_env = 3" by (simp add: example_env_def)
  have "get_new_leaves example_env example_assignment 24 casual_leave (Some (Date 2021 7 1))
          = Inr 13"
    using july_joiner_allocation[OF h2 h3 h4 h5, of example_env] p by simp
  then show ?thesis
    using h2 h3 h4 h5 p by blast
qed

section \<open>Compensatory leave\<close>

text \<open>
  C7. For every compensatory leave type and every annual allocation, the initial
  allocation quantity computed at assignment time is 0.
\<close>

theorem compensatory_initial_allocation:
  assumes "is_compensatory leave_details"
  shows "get_new_leaves e self annual leave_details date_of_joining = Inr 0"
  using assms by (simp add: get_new_leaves_def get_pro_rated_leaves_def flt_0)

theorem compensatory_initial_allocation_witness:
  "is_compensatory compensatory_off
   \<and> get_new_leaves example_env example_assignment 24 compensatory_off (Some (Date 2021 7 1))
       = Inr 0"
proof -
  have h: "is_compensatory compensatory_off" by (simp add: compensatory_off_def)
  show ?thesis
    using h compensatory_initial_allocation[OF h] by blast
qed

section \<open>The period resolver\<close>

text \<open>
  C8. \<open>set_dates\<close> leaves \<open>effective_from\<close> and \<open>effective_to\<close> (and the rest of the document)
  unchanged when the assignment basis is undefined, or any value other than the two it
  knows; when the basis is the joining date, it sets \<open>effective_from\<close> to the employee's
  date of joining and does not set \<open>effective_to\<close>.
\<close>

theorem set_dates_frame:
  "(assignment_based_on self \<noteq> Some ''Leave Period''
      \<and> assignment_based_on self \<noteq> Some ''Joining Date''
      \<longrightarrow> set_dates d self = Inr self)
   \<and> (assignment_based_on self = Some ''Joining Date'' \<longrightarrow>
        (\<exists>self'. set_dates d self = Inr self'
           \<and> effective_from self' = get_date_of_joining d (employee self)
           \<and> effective_to self' = effective_to self
           \<and> self' = self\<lparr>effective_from := effective_from self'\<rparr>))"
  by (simp add: set_dates_def)

theorem set_dates_frame_witness:
  "set_dates example_db (example_assignment\<lparr>assignment_based_on := None\<rparr>)
     = Inr (example_assignment\<lparr>assignment_based_on := None\<rparr>)
   \<and> (\<exists>self'. set_dates example_db
                 (example_assignment\<lparr>assignment_based_on := Some ''Joining Date''\<rparr>) = Inr self'
          \<and> effective_from self' = Some (Date 2020 3 1)
          \<and> effective_to self' = Some (Date 2021 12 31))"
proof -
  have h1: "assignment_based_on (example_assignment\<lparr>assignment_based_on := None\<rparr>)
              \<noteq> Some ''Leave Period''
            \<and> assignment_based_on (example_assignment\<lparr>assignment_based_on := None\<rparr>)
              \<noteq> Some ''Joining Date''"
    by simp
  have h2: "assignment_based_on (example_assignment\<lparr>assignment_based_on := Some ''Joining Date''\<rparr>)
              = Some ''Joining Date''"
    by simp
  have j: "get_date_of_joining example_db
             (employee (example_assignment\<lparr>assignment_based_on := Some ''Joining Date''\<rparr>))
           = Some (Date 2020 3 1)"
    by code_simp
  have t: "effective_to (example_assignment\<lparr>assignment_based_on := Some ''Joining Date''\<rparr>)
           = Some (Date 2021 12 31)"
    by code_simp
  show ?thesis
    using h1 h2
      set_dates_frame[of "example_assignment\<lparr>assignment_based_on := None\<rparr>" example_db]
      set_dates_frame[of "example_assignment\<lparr>assignment_based_on := Some ''Joining Date''\<rparr>"
        example_db]
    unfolding j t by blast
qed

section \<open>The overlap validator\<close>

text \<open>
  C5. The overlap validator rejects a candidate assignment with a Conflict error if and
  only if some other submitted assignment of the same employee, the candidate's own name
  excluded, has \<open>effective_to\<close> on or after the candidate's \<open>effective_from\<close> and
  \<open>effective_from\<close> on or before the candidate's \<open>effective_to\<close>; otherwise it passes.
\<close>

theorem overlap_validator:
  "validate_policy_assignment_overlap d self =
     (if \<exists>b \<in> set (assignments d).
           employee b = employee self \<and> name b \<noteq> name self \<and> docstatus b = 1
           \<and> date_opt_le (effective_from self) (effective_to b)
           \<and> date_opt_le (effective_from b) (effective_to self)
      then Inl (Conflict (leave_policy self) (employee self)
                  (effective_from self) (effective_to self))
      else Inr ())"
  by (auto simp add: validate_policy_assignment_overlap_def filter_empty_conv)

text \<open>
  At the example site where EMP-2 has a submitted assignment for the first half of 2021, a
  new assignment of EMP-2 for the whole year is rejected.
\<close>

theorem overlap_validator_witness:
  "validate_policy_assignment_overlap example_db_prior
     (example_assignment\<lparr>name := Some 1, employee := ''EMP-2''\<rparr>)
   = Inl (Conflict ''POLICY'' ''EMP-2'' (Some (Date 2021 1 1)) (Some (Date 2021 12 31)))"
proof -
  let ?self = "example_assignment\<lparr>name := Some 1, employee := ''EMP-2''\<rparr>"
  have "validate_policy_assignment_overlap example_db_prior ?self =
     (if \<exists>b \<in> set (assignments example_db_prior).
           employee b = employee ?self \<and> name b \<noteq> name ?self \<and> docstatus b = 1
           \<and> date_opt_le (effective_from ?self) (effective_to b)
           \<and> date_opt_le (effective_from b) (effective_to ?self)
      then Inl (Conflict (leave_policy ?self) (employee ?self)
                  (effective_from ?self) (effective_to ?self))
      else Inr ())"
    by (rule overlap_validator)
  also have "\<dots> = Inl (Conflict ''POLICY'' ''EMP-2'' (Some (Date 2021 1 1)) (Some (Date 2021 12 31)))"
    by code_simp
  finally show ?thesis .
qed

section \<open>Facts about granting\<close>

lemma allocation_save_effect:
  assumes "allocation_save e d al = (r, d1)"
  shows "(\<exists>err. r = Inl err \<and> d1 = d)
         \<or> (r = Inr (al\<lparr>al_name := Some (length (allocations d))\<rparr>)
            \<and> d1 = d\<lparr>allocations :=
                      allocations d @ [al\<lparr>al_name := Some (length (allocations d))\<rparr>]\<rparr>)"
  using assms by (auto simp add: allocation_save_def Let_def split: option.splits)

lemma allocation_submit_effect:
  assumes "allocation_submit e d al = (r, d1)"
  shows "(\<exists>err. r = Inl err \<and> d1 = d)
         \<or> (r = Inr (al\<lparr>al_docstatus := 1\<rparr>)
            \<and> d1 = d\<lparr>allocations :=
                      map (\<lambda>x. if al_name x = al_name al then al\<lparr>al_docstatus := 1\<rparr> else x)
                        (allocations d)\<rparr>)"
  using assms by (auto simp add: allocation_submit_def Let_def split: option.splits)

text \<open>
  What \<open>create_leave_allocation\<close> does to the database: nothing, or a draft appended, or
  the draft appended and then stored as submitted. The record is known by the fields
  that matter below.
\<close>

lemma create_leave_allocation_effect:
  assumes "create_leave_allocation e self annual ld doj d = (r, d')"
  shows "\<exists>al. al_leave_period al =
                 (if assignment_based_on self = Some ''Leave Policy'' then leave_period self
                  else Some [])
              \<and> al_leave_policy_assignment al = name self
              \<and> al_name al = Some (length (allocations d))
              \<and> ((\<exists>err. r = Inl err) \<and> (d' = d \<or> d' = d\<lparr>allocations := allocations d @ [al]\<rparr>)
                 \<or> (\<exists>leaves. r = Inr (al_name al, leaves))
                    \<and> d' = d\<lparr>allocations :=
                              map (\<lambda>x. if al_name x = al_name al then al\<lparr>al_docstatus := 1\<rparr>
                                       else x)
                                (allocations d @ [al])\<rparr>)"
proof (cases "get_new_leaves e self annual ld doj")
  case (Inl err)
  then have "r = Inl err \<and> d' = d"
    using assms by (simp add: create_leave_allocation_def)
  then show ?thesis
    by (intro exI[of _ "\<lparr>al_name = Some (length (allocations d)), al_employee = [],
          al_leave_type = [], al_from_date = None, al_to_date = None, new_leaves_allocated = 0,
          al_leave_period = (if assignment_based_on self = Some ''Leave Policy''
                             then leave_period self else Some []),
          al_leave_policy_assignment = name self, al_leave_policy = [],
          al_carry_forward = False, al_docstatus = 0\<rparr>"]) simp
next
  case (Inr leaves)
  define al0 where "al0 =
    \<lparr>al_name = None, al_employee = employee self, al_leave_type = lt_name ld,
     al_from_date = effective_from self, al_to_date = effective_to self,
     new_leaves_allocated = leaves,
     al_leave_period = (if assignment_based_on self = Some ''Leave Policy''
                        then leave_period self else Some []),
     al_leave_policy_assignment = name self, al_leave_policy = leave_policy self,
     al_carry_forward = (if carry_forward self \<and> \<not> is_carry_forward ld then False
                         else carry_forward self),
     al_docstatus = 0\<rparr>"
  define al where "al = al0\<lparr>al_name := Some (length (allocations d))\<rparr>"
  have unfold: "create_leave_allocation e self annual ld doj d =
      (case allocation_save e d al0 of
         (Inl err, d1) \<Rightarrow> (Inl err, d1)
       | (Inr saved, d1) \<Rightarrow>
           (case allocation_submit e d1 saved of
              (Inl err, d2) \<Rightarrow> (Inl err, d2)
            | (Inr submitted, d2) \<Rightarrow> (Inr (al_name submitted, leaves), d2)))"
    by (simp add: create_leave_allocation_def Inr al0_def Let_def)
  have fields: "al_leave_period al =
                  (if assignment_based_on self = Some ''Leave Policy'' then leave_period self
                   else Some [])"
    "al_leave_policy_assignment al = name self" "al_name al = Some (length (allocations d))"
    by (simp_all add: al_def al0_def)
  obtain r1 d1 where save: "allocation_save e d al0 = (r1, d1)"
    by (cases "allocation_save e d al0") blast
  from allocation_save_effect[OF save]
  consider (save_failed) err where "r1 = Inl err" "d1 = d"
    | (saved) "r1 = Inr al" "d1 = d\<lparr>allocations := allocations d @ [al]\<rparr>"
    unfolding al_def by blast
  then show ?thesis
  proof cases
    case save_failed
    then have "r = Inl err \<and> d' = d"
      using assms unfold save by simp
    then show ?thesis using fields by blast
  next
    case saved
    obtain r2 d2 where submit: "allocation_submit e d1 al = (r2, d2)"
      by (cases "allocation_submit e d1 al") blast
    from allocation_submit_effect[OF submit]
    consider (submit_failed) err where "r2 = Inl err" "d2 = d1"
      | (submitted) "r2 = Inr (al\<lparr>al_docstatus := 1\<rparr>)"
          "d2 = d1\<lparr>allocations :=
                    map (\<lambda>x. if al_name x = al_name al then al\<lparr>al_docstatus := 1\<rparr> else x)
                      (allocations d1)\<rparr>"
      by blast
    then show ?thesis
    proof cases
      case submit_failed
      then have "r = Inl err \<and> d' = d\<lparr>allocations := allocations d @ [al]\<rparr>"
        using assms unfold save saved submit by simp
      then show ?thesis using fields by blast
    next
      case submitted
      then have "r = Inr (al_name al, leaves)
                 \<and> d' = d\<lparr>allocations :=
                           map (\<lambda>x. if al_name x = al_name al then al\<lparr>al_docstatus := 1\<rparr>
                                    else x)
                             (allocations d @ [al])\<rparr>"
        using assms unfold save saved submit by simp
      then show ?thesis using fields by blast
    qed
  qed
qed

lemma create_leave_allocation_frame:
  assumes "create_leave_allocation e self annual ld doj d = (r, d')"
  shows "assignments d' = assignments d \<and> leave_policies d' = leave_policies d
         \<and> leave_types d' = leave_types d \<and> employees d' = employees d
         \<and> length (allocations d) \<le> length (allocations d')"
  using create_leave_allocation_effect[OF assms] by auto

lemma create_leave_allocation_leave_period:
  assumes "create_leave_allocation e self annual ld doj d = (r, d')"
    and "n \<le> length (allocations d)"
    and "\<forall>x \<in> set (drop n (allocations d)).
           al_leave_period x =
             (if assignment_based_on self = Some ''Leave Policy'' then leave_period self
              else Some [])"
  shows "\<forall>x \<in> set (drop n (allocations d')).
           al_leave_period x =
             (if assignment_based_on self = Some ''Leave Policy'' then leave_period self
              else Some [])"
  using create_leave_allocation_effect[OF assms(1)] assms(2,3)
  by (auto simp add: drop_map)

lemma create_leave_allocation_submitted:
  assumes "create_leave_allocation e self annual ld doj d = (Inr created, d')"
    and "n \<le> length (allocations d)"
    and "\<forall>x \<in> set (drop n (allocations d)). al_docstatus x = 1"
  shows "length (allocations d') = length (allocations d) + 1
         \<and> (\<forall>x \<in> set (drop n (allocations d')). al_docstatus x = 1)"
  using create_leave_allocation_effect[OF assms(1)] assms(2,3)
  by (auto simp add: drop_map)

lemma grant_details_frame:
  assumes "grant_details e self lts doj details acc d = (r, d')"
  shows "assignments d' = assignments d \<and> length (allocations d) \<le> length (allocations d')"
  using assms
proof (induction details arbitrary: acc d)
  case Nil
  then show ?case by simp
next
  case (Cons detail rest)
  show ?case
  proof (cases "lts (leave_type detail)")
    case None
    then show ?thesis using Cons.prems by simp
  next
    case (Some ld)
    show ?thesis
    proof (cases "is_lwp ld")
      case True
      then have "grant_details e self lts doj rest acc d = (r, d')"
        using Cons.prems Some by simp
      then show ?thesis by (rule Cons.IH)
    next
      case False
      obtain r1 d1 where c: "create_leave_allocation e self (annual_allocation detail) ld doj d
                               = (r1, d1)"
        by (cases "create_leave_allocation e self (annual_allocation detail) ld doj d") blast
      note f = create_leave_allocation_frame[OF c]
      show ?thesis
      proof (cases r1)
        case (Inl err)
        then have "d' = d1" using Cons.prems Some False c by simp
        then show ?thesis using f by simp
      next
        case (Inr created)
        then have "grant_details e self lts doj rest
                     (AList.update (lt_name ld) created acc) d1 = (r, d')"
          using Cons.prems Some False c by simp
        from Cons.IH[OF this] show ?thesis using f by simp
      qed
    qed
  qed
qed

lemma grant_details_leave_period:
  assumes "grant_details e self lts doj details acc d = (r, d')"
    and "n \<le> length (allocations d)"
    and "\<forall>x \<in> set (drop n (allocations d)).
           al_leave_period x =
             (if assignment_based_on self = Some ''Leave Policy'' then leave_period self
              else Some [])"
  shows "\<forall>x \<in> set (drop n (allocations d')).
           al_leave_period x =
             (if assignment_based_on self = Some ''Leave Policy'' then leave_period self
              else Some [])"
  using assms
proof (induction details arbitrary: acc d)
  case Nil
  then show ?case by simp
next
  case (Cons detail rest)
  show ?case
  proof (cases "lts (leave_type detail)")
    case None
    then show ?thesis using Cons.prems by simp
  next
    case (Some ld)
    show ?thesis
    proof (cases "is_lwp ld")
      case True
      then have "grant_details e self lts doj rest acc d = (r, d')"
        using Cons.prems(1) Some by simp
      then show ?thesis using Cons.prems(2,3) by (rule Cons.IH)
    next
      case False
      obtain r1 d1 where c: "create_leave_allocation e self (annual_allocation detail) ld doj d
                               = (r1, d1)"
        by (cases "create_leave_allocation e self (annual_allocation detail) ld doj d") blast
      note p = create_leave_allocation_leave_period[OF c Cons.prems(2,3)]
      have n: "n \<le> length (allocations d1)"
        using create_leave_allocation_frame[OF c] Cons.prems(2) by simp
      show ?thesis
      proof (cases r1)
        case (Inl err)
        then have "d' = d1" using Cons.prems(1) Some False c by simp
        then show ?thesis using p by simp
      next
        case (Inr created)
        then have "grant_details e self lts doj rest
                     (AList.update (lt_name ld) created acc) d1 = (r, d')"
          using Cons.prems(1) Some False c by simp
        then show ?thesis using n p by (rule Cons.IH)
      qed
    qed
  qed
qed

lemma grant_details_submitted:
  assumes "grant_details e self lts doj details acc d = (Inr las, d')"
    and "n \<le> length (allocations d)"
    and "\<forall>x \<in> set (drop n (allocations d)). al_docstatus x = 1"
  shows "length (allocations d') = length (allocations d) + length (non_lwp_details lts details)
         \<and> (\<forall>x \<in> set (drop n (allocations d')). al_docstatus x = 1)"
  using assms
proof (induction details arbitrary: acc d)
  case Nil
  then show ?case by (simp add: non_lwp_details_def)
next
  case (Cons detail rest)
  show ?case
  proof (cases "lts (leave_type detail)")
    case None
    then show ?thesis using Cons.prems by simp
  next
    case (Some ld)
    show ?thesis
    proof (cases "is_lwp ld")
      case True
      then have "grant_details e self lts doj rest acc d = (Inr las, d')"
        using Cons.prems(1) Some by simp
      from Cons.IH[OF this Cons.prems(2,3)] show ?thesis
        using Some True by (simp add: non_lwp_details_def)
    next
      case False
      obtain r1 d1 where c: "create_leave_allocation e self (annual_allocation detail) ld doj d
                               = (r1, d1)"
        by (cases "create_leave_allocation e self (annual_allocation detail) ld doj d") blast
      show ?thesis
      proof (cases r1)
        case (Inl err)
        then show ?thesis using Cons.prems(1) Some False c by simp
      next
        case (Inr created)
        then have rest: "grant_details e self lts doj rest
                     (AList.update (lt_name ld) created acc) d1 = (Inr las, d')"
          using Cons.prems(1) Some False c by simp
        have c': "create_leave_allocation e self (annual_allocation detail) ld doj d
                    = (Inr created, d1)"
          using c Inr by simp
        note s = create_leave_allocation_submitted[OF c' Cons.prems(2,3)]
        have n: "n \<le> length (allocations d1)"
          using s Cons.prems(2) by simp
        from Cons.IH[OF rest n] s show ?thesis
          using Some False by (simp add: non_lwp_details_def)
      qed
    qed
  qed
qed

text \<open>The four ways \<open>grant_leave_alloc_for_employee\<close> can end.\<close>

lemma grant_cases:
  assumes "grant_leave_alloc_for_employee e self d = (r, self', d')"
  obtains (already) "leaves_allocated self" "r = Inl AlreadyAllocated" "self' = self" "d' = d"
    | (no_policy) "\<not> leaves_allocated self" "map_of (leave_policies d) (leave_policy self) = None"
        "r = Inl DoesNotExistError" "self' = self" "d' = d"
    | (failed) details err where "\<not> leaves_allocated self"
        "map_of (leave_policies d) (leave_policy self) = Some details"
        "grant_details e self (get_leave_type_details d) (get_date_of_joining d (employee self))
           details [] d = (Inl err, d')"
        "r = Inl err" "self' = self"
    | (granted) details las d1 where "\<not> leaves_allocated self"
        "map_of (leave_policies d) (leave_policy self) = Some details"
        "grant_details e self (get_leave_type_details d) (get_date_of_joining d (employee self))
           details [] d = (Inr las, d1)"
        "r = Inr las" "(self', d') = db_set_leaves_allocated self d1"
proof (cases "leaves_allocated self")
  case True
  then have "r = Inl AlreadyAllocated \<and> self' = self \<and> d' = d"
    using assms by (simp add: grant_leave_alloc_for_employee_def)
  then show ?thesis using True already by blast
next
  case False
  note flag = this
  show ?thesis
  proof (cases "map_of (leave_policies d) (leave_policy self)")
    case None
    then have "r = Inl DoesNotExistError \<and> self' = self \<and> d' = d"
      using assms flag by (simp add: grant_leave_alloc_for_employee_def)
    then show ?thesis using flag None no_policy by blast
  next
    case (Some details)
    obtain r1 d1 where g: "grant_details e self (get_leave_type_details d)
                             (get_date_of_joining d (employee self)) details [] d = (r1, d1)"
      by (cases "grant_details e self (get_leave_type_details d)
                   (get_date_of_joining d (employee self)) details [] d") blast
    show ?thesis
    proof (cases r1)
      case (Inl err)
      then have "r = Inl err \<and> self' = self \<and> d' = d1"
        using assms flag Some g by (simp add: grant_leave_alloc_for_employee_def)
      then show ?thesis using flag Some g Inl failed[of details err] by blast
    next
      case (Inr las)
      then have "r = Inr las \<and> (self', d') = db_set_leaves_allocated self d1"
        using assms flag Some g
        by (simp add: grant_leave_alloc_for_employee_def split: prod.splits)
      then show ?thesis using flag Some g Inr granted[of details las d1] by blast
    qed
  qed
qed

section \<open>Granting twice\<close>

text \<open>
  C4 (as stated). The second invocation is refused only if the first one returned. At the
  example site, where the submission of the earned leave allocation is refused, the first
  invocation raises after the casual leave allocation has been created and submitted, and
  the flag stays unset; the second invocation is not answered with AlreadyAllocated: it
  runs the loop again, and the assignment ends with two submitted casual leave
  allocations.
\<close>

theorem grant_twice_claim_counterexample:
  "fst (grant_leave_alloc_for_employee example_env_refusing example_assignment example_db)
     = Inl (AllocationError True)
   \<and> fst (grant_leave_alloc_for_employee example_env_refusing
            (fst (snd (grant_leave_alloc_for_employee example_env_refusing example_assignment
                         example_db)))
            (snd (snd (grant_leave_alloc_for_employee example_env_refusing example_assignment
                         example_db))))
     = Inl (AllocationError True)
   \<and> map (\<lambda>al. (al_leave_type al, al_leave_policy_assignment al, al_docstatus al))
        (allocations
           (snd (snd (grant_leave_alloc_for_employee example_env_refusing
              (fst (snd (grant_leave_alloc_for_employee example_env_refusing example_assignment
                           example_db)))
              (snd (snd (grant_leave_alloc_for_employee example_env_refusing example_assignment
                           example_db)))))))
     = [(''Casual Leave'', Some 0, 1), (''Earned Leave'', Some 0, 0),
        (''Casual Leave'', Some 0, 1), (''Earned Leave'', Some 0, 0)]"
  by code_simp

text \<open>
  C4 (amended). For every assignment on which an invocation of the grant operation has
  returned: that invocation has set the \<open>leaves_allocated\<close> flag, on the document and on its
  stored row, and invoking the operation again yields the AlreadyAllocated error and
  leaves the document and the database as they were, so no allocation record is created
  twice.
\<close>

theorem grant_twice:
  assumes "grant_leave_alloc_for_employee e self d = (Inr las, self', d')"
  shows "leaves_allocated self'
         \<and> (\<forall>b \<in> set (assignments d'). name b = name self \<longrightarrow> leaves_allocated b)
         \<and> grant_leave_alloc_for_employee e self' d' = (Inl AlreadyAllocated, self', d')"
  using assms
proof (cases rule: grant_cases)
  case (granted details las1 d1)
  then have s: "self' = self\<lparr>leaves_allocated := True\<rparr>"
    and d: "assignments d' =
              map (\<lambda>b. if name b = name self then b\<lparr>leaves_allocated := True\<rparr> else b)
                (assignments d1)"
    by (simp_all add: db_set_leaves_allocated_def)
  have "leaves_allocated self'"
    using s by simp
  moreover from this
  have "grant_leave_alloc_for_employee e self' d' = (Inl AlreadyAllocated, self', d')"
    by (simp add: grant_leave_alloc_for_employee_def)
  moreover have "\<forall>b \<in> set (assignments d'). name b = name self \<longrightarrow> leaves_allocated b"
    unfolding d by auto
  ultimately show ?thesis by blast
qed simp_all

theorem grant_twice_witness:
  "\<exists>las self' d'.
      grant_leave_alloc_for_employee example_env example_assignment example_db = (Inr las, self', d')
      \<and> leaves_allocated self'
      \<and> grant_leave_alloc_for_employee example_env self' d' = (Inl AlreadyAllocated, self', d')"
proof -
  have "fst (grant_leave_alloc_for_employee example_env example_assignment example_db)
          = Inr [(''Casual Leave'', Some 0, 24), (''Earned Leave'', Some 1, 8)]"
    by code_simp
  then obtain self' d' where
    g: "grant_leave_alloc_for_employee example_env example_assignment example_db
          = (Inr [(''Casual Leave'', Some 0, 24), (''Earned Leave'', Some 1, 8)], self', d')"
    by (cases "grant_leave_alloc_for_employee example_env example_assignment example_db") auto
  show ?thesis
    using g grant_twice[OF g] by blast
qed

section \<open>The flag is set last\<close>

text \<open>
  C10. On an assignment whose flag is not set: if the grant operation ends with an error
  (the creation or submission of an allocation raised), the \<open>leaves_allocated\<close> flag remains
  unset, on the document and on the stored rows; if it returns, the flag is set, and by
  then one allocation has been created for every non-LWP leave type of the policy, each
  of them submitted.
\<close>

theorem grant_sets_flag_last:
  assumes "\<not> leaves_allocated self"
    and "grant_leave_alloc_for_employee e self d = (r, self', d')"
  shows "(\<forall>err. r = Inl err \<longrightarrow>
            self' = self \<and> \<not> leaves_allocated self' \<and> assignments d' = assignments d)
         \<and> (\<forall>las. r = Inr las \<longrightarrow>
              leaves_allocated self'
              \<and> (\<exists>details. map_of (leave_policies d) (leave_policy self) = Some details
                   \<and> length (allocations d') =
                       length (allocations d)
                       + length (non_lwp_details (get_leave_type_details d) details))
              \<and> (\<forall>al \<in> set (drop (length (allocations d)) (allocations d')).
                    al_docstatus al = 1))"
  using assms(2)
proof (cases rule: grant_cases)
  case already
  then show ?thesis using assms(1) by simp
next
  case no_policy
  then show ?thesis using assms(1) by simp
next
  case (failed details err)
  then show ?thesis
    using assms(1) grant_details_frame[OF failed(3)] by simp
next
  case (granted details las d1)
  have s: "self' = self\<lparr>leaves_allocated := True\<rparr>" and a: "allocations d' = allocations d1"
    using granted(5) by (simp_all add: db_set_leaves_allocated_def)
  have "length (allocations d1) =
          length (allocations d) + length (non_lwp_details (get_leave_type_details d) details)
        \<and> (\<forall>x \<in> set (drop (length (allocations d)) (allocations d1)). al_docstatus x = 1)"
    by (rule grant_details_submitted[OF granted(3)]) simp_all
  then show ?thesis
    using granted(2,4) s a by simp
qed

text \<open>
  At the example site the policy has a casual and an earned leave type. Where the
  submission of the earned leave allocation is refused, the operation fails after the
  casual leave allocation has been created, and the flag stays unset; where nothing is
  refused, two submitted allocations are there when the flag is set.
\<close>

theorem grant_sets_flag_last_witness:
  "\<not> leaves_allocated example_assignment
   \<and> (\<exists>self' d'.
         grant_leave_alloc_for_employee example_env_refusing example_assignment example_db
           = (Inl (AllocationError True), self', d')
         \<and> \<not> leaves_allocated self' \<and> assignments d' = assignments example_db)
   \<and> (\<exists>las self' d'.
         grant_leave_alloc_for_employee example_env example_assignment example_db
           = (Inr las, self', d')
         \<and> leaves_allocated self'
         \<and> list_all (\<lambda>al. al_docstatus al = 1) (drop (length (allocations example_db)) (allocations d')))"
proof -
  have h: "\<not> leaves_allocated example_assignment"
    by code_simp
  have "fst (grant_leave_alloc_for_employee example_env_refusing example_assignment example_db)
          = Inl (AllocationError True)"
    by code_simp
  then obtain s1 d1 where
    g1: "grant_leave_alloc_for_employee example_env_refusing example_assignment example_db
           = (Inl (AllocationError True), s1, d1)"
    by (cases "grant_leave_alloc_for_employee example_env_refusing example_assignment example_db")
       auto
  have "fst (grant_leave_alloc_for_employee example_env example_assignment example_db)
          = Inr [(''Casual Leave'', Some 0, 24), (''Earned Leave'', Some 1, 8)]"
    by code_simp
  then obtain s2 d2 where
    g2: "grant_leave_alloc_for_employee example_env example_assignment example_db
           = (Inr [(''Casual Leave'', Some 0, 24), (''Earned Leave'', Some 1, 8)], s2, d2)"
    by (cases "grant_leave_alloc_for_employee example_env example_assignment example_db") auto
  have f1: "\<not> leaves_allocated s1 \<and> assignments d1 = assignments example_db"
    using grant_sets_flag_last[OF h g1] by blast
  have f2: "leaves_allocated s2
            \<and> list_all (\<lambda>al. al_docstatus al = 1)
                (drop (length (allocations example_db)) (allocations d2))"
    using grant_sets_flag_last[OF h g2] by (simp add: list_all_iff)
  show ?thesis
    using h g1 f1 g2 f2 by blast
qed

section \<open>The leave period of a created allocation\<close>

text \<open>
  C9. Every Leave Allocation record that the grant operation creates has an empty
  \<open>leave_period\<close> unless the assignment basis is the string "Leave Policy" (then it has the
  assignment's); in particular it is empty for the two permissible bases, "Leave Period"
  and "Joining Date", whatever leave period the assignment references.
\<close>

theorem created_allocation_leave_period:
  assumes "grant_leave_alloc_for_employee e self d = (r, self', d')"
  shows "(\<forall>al \<in> set (drop (length (allocations d)) (allocations d')).
            al_leave_period al =
              (if assignment_based_on self = Some ''Leave Policy'' then leave_period self
               else Some []))
         \<and> (assignment_based_on self = Some ''Leave Period''
              \<or> assignment_based_on self = Some ''Joining Date''
            \<longrightarrow> (\<forall>al \<in> set (drop (length (allocations d)) (allocations d')).
                   al_leave_period al = Some []))"
proof -
  have "\<forall>al \<in> set (drop (length (allocations d)) (allocations d')).
          al_leave_period al =
            (if assignment_based_on self = Some ''Leave Policy'' then leave_period self
             else Some [])"
    using assms
  proof (cases rule: grant_cases)
    case (failed details err)
    show ?thesis
      by (rule grant_details_leave_period[OF failed(3)]) simp_all
  next
    case (granted details las d1)
    have a: "allocations d' = allocations d1"
      using granted(5) by (simp add: db_set_leaves_allocated_def)
    show ?thesis
      unfolding a by (rule grant_details_leave_period[OF granted(3)]) simp_all
  qed simp_all
  then show ?thesis by auto
qed

text \<open>
  The example assignment is based on a leave period and references the leave period
  "2021"; both allocations created for it have an empty \<open>leave_period\<close>.
\<close>

theorem created_allocation_leave_period_witness:
  "assignment_based_on example_assignment = Some ''Leave Period''
   \<and> leave_period example_assignment = Some ''2021''
   \<and> (\<exists>r self' d'.
         grant_leave_alloc_for_employee example_env example_assignment example_db = (r, self', d')
         \<and> length (drop (length (allocations example_db)) (allocations d')) = 2
         \<and> list_all (\<lambda>al. al_leave_period al = Some [])
             (drop (length (allocations example_db)) (allocations d')))"
proof -
  have h: "assignment_based_on example_assignment = Some ''Leave Period''"
    "leave_period example_assignment = Some ''2021''"
    by code_simp+
  obtain r s1 d1 where
    g: "grant_leave_alloc_for_employee example_env example_assignment example_db = (r, s1, d1)"
    by (cases "grant_leave_alloc_for_employee example_env example_assignment example_db") auto
  have "length (drop (length (allocations example_db))
          (allocations (snd (snd (grant_leave_alloc_for_employee example_env example_assignment
             example_db))))) = 2"
    by code_simp
  then have len: "length (drop (length (allocations example_db)) (allocations d1)) = 2"
    using g by simp
  have "list_all (\<lambda>al. al_leave_period al = Some [])
          (drop (length (allocations example_db)) (allocations d1))"
    using created_allocation_leave_period[OF g] h(1) by (simp add: list_all_iff)
  then show ?thesis
    using h g len by blast
qed

section \<open>Bulk creation\<close>

text \<open>
  An employee whose submission fails with a validation error is skipped, and the others
  are processed: where the Leave Allocation controller refuses the allocations of EMP-2,
  the bulk creation for three employees returns the names of the assignments of the other
  two.
\<close>

lemma bulk_creation_skips_failed_submission:
  "fst (create_assignment_for_multiple_employees example_env_refusing_one
          [''EMP-1'', ''EMP-2'', ''EMP-3''] example_data example_db)
   = Inr [Some 0, Some 2]"
  by code_simp

text \<open>
  C3 (the code at the failing input). Bulk creation for the three employees at the site
  where EMP-2 has an overlapping submitted assignment: the overlap is found by \<open>validate\<close>
  when the new assignment of EMP-2 is saved, before the \<^verbatim>\<open>try\<close> is entered; the Conflict
  error leaves the function, which returns no list of names, and EMP-3 is never processed.
\<close>

theorem bulk_creation_overlap_aborts:
  "fst (save example_db_prior (new_assignment example_env ''EMP-2'' example_data))
     = Inl (Conflict ''POLICY'' ''EMP-2'' (Some (Date 2021 1 1)) (Some (Date 2021 12 31)))
   \<and> fst (create_assignment_for_multiple_employees example_env
            [''EMP-1'', ''EMP-2'', ''EMP-3''] example_data example_db_prior)
     = Inl (Conflict ''POLICY'' ''EMP-2'' (Some (Date 2021 1 1)) (Some (Date 2021 12 31)))
   \<and> map employee
        (assignments (snd (create_assignment_for_multiple_employees example_env
            [''EMP-1'', ''EMP-2'', ''EMP-3''] example_data example_db_prior)))
     = [''EMP-2'', ''EMP-1'']"
  by code_simp

end
